theory Spec2Isabelle
  imports Main "HOL-Library.Sublist"
begin

section \<open>JavaScript values used by the scheduling code\<close>

text \<open>
  Objects that the code shares and mutates (doctors, patients) live in a heap and are
  referred to by address. Errors are values: \<open>Error msg\<close> is \<open>new Error(msg)\<close>,
  \<open>TypeError\<close> and \<open>RangeError\<close> are the errors raised by the language itself,
  \<open>DuplicateKey\<close> and \<open>MissingKey\<close> are the two failures of the generic repository.
\<close>

type_synonym addr = nat

datatype error = Error string | TypeError | RangeError | DuplicateKey | MissingKey

text \<open>
  A JavaScript number as far as the clock arithmetic needs it: \<open>NaN\<close> or an integer.
  A value that may or may not be a \<open>Date\<close>: the time value of a \<open>Date\<close> object is
  \<open>Some ms\<close> (milliseconds since the epoch) or \<open>None\<close> for an invalid date (NaN).
\<close>

datatype jsnum = NaN | Num int

datatype jsValue = DateObj "int option" | StringVal string | OtherVal

text \<open>Truthiness of a string, and of a string that may be \<open>undefined\<close>.\<close>

definition truthy :: "string \<Rightarrow> bool" where
  "truthy s = (s \<noteq> [])"

definition truthyOpt :: "string option \<Rightarrow> bool" where
  "truthyOpt v = (case v of None \<Rightarrow> False | Some s \<Rightarrow> truthy s)"

text \<open>\<open>a || b\<close> on values that are strings or \<open>undefined\<close>.\<close>

definition orElse :: "string option \<Rightarrow> string option \<Rightarrow> string option" where
  "orElse a b = (if truthyOpt a then a else b)"

subsection \<open>Arithmetic and comparison with NaN\<close>

definition js_add :: "jsnum \<Rightarrow> jsnum \<Rightarrow> jsnum" where
  "js_add a b = (case (a, b) of (Num x, Num y) \<Rightarrow> Num (x + y) | _ \<Rightarrow> NaN)"

definition js_mul :: "jsnum \<Rightarrow> jsnum \<Rightarrow> jsnum" where
  "js_mul a b = (case (a, b) of (Num x, Num y) \<Rightarrow> Num (x * y) | _ \<Rightarrow> NaN)"

definition js_ge :: "jsnum \<Rightarrow> jsnum \<Rightarrow> bool" where
  "js_ge a b = (case (a, b) of (Num x, Num y) \<Rightarrow> x \<ge> y | _ \<Rightarrow> False)"

definition js_le :: "jsnum \<Rightarrow> jsnum \<Rightarrow> bool" where
  "js_le a b = (case (a, b) of (Num x, Num y) \<Rightarrow> x \<le> y | _ \<Rightarrow> False)"

text \<open>\<open>d1.getTime() === d2.getTime()\<close>: NaN is not equal to anything, itself included.\<close>

definition sameTime :: "int option \<Rightarrow> int option \<Rightarrow> bool" where
  "sameTime a b = (case (a, b) of (Some x, Some y) \<Rightarrow> x = y | _ \<Rightarrow> False)"

subsection \<open>String methods\<close>

text \<open>
  \<open>String.prototype.trim\<close> removes white space at both ends; among the 8-bit characters
  these are TAB, LF, VT, FF, CR, SPACE and NBSP.
\<close>

definition isWhiteSpace :: "char \<Rightarrow> bool" where
  "isWhiteSpace c = (c \<in> set [CHR 0x09, CHR 0x0A, CHR 0x0B, CHR 0x0C, CHR 0x0D, CHR 0x20, CHR 0xA0])"

definition trim :: "string \<Rightarrow> string" where
  "trim s = rev (dropWhile isWhiteSpace (rev (dropWhile isWhiteSpace s)))"

text \<open>\<open>s.includes(sub)\<close>: \<open>sub\<close> occurs in \<open>s\<close> as a contiguous substring.\<close>

fun includes_js :: "string \<Rightarrow> string \<Rightarrow> bool" where
  "includes_js [] sub = (sub = [])"
| "includes_js (c # cs) sub = (prefix sub (c # cs) \<or> includes_js cs sub)"

text \<open>
  \<open>s.split(sep)\<close> for a non-empty separator (the source only splits at \<open>' - '\<close> and
  \<open>':'\<close>): the pieces between the successive, non-overlapping occurrences of \<open>sep\<close>,
  found from left to right. The result always has at least one piece.
\<close>

function splitFrom :: "string \<Rightarrow> string \<Rightarrow> string \<Rightarrow> string list" where
  "splitFrom sep cur [] = [cur]"
| "splitFrom sep cur (c # cs) =
     (if sep \<noteq> [] \<and> prefix sep (c # cs)
      then cur # splitFrom sep [] (drop (length sep) (c # cs))
      else splitFrom sep (cur @ [c]) cs)"
  by pat_completeness auto
termination
  by (relation "measure (\<lambda>(sep, cur, rest). length rest)") (auto simp: neq_Nil_conv)

definition split :: "string \<Rightarrow> string \<Rightarrow> string list" where
  "split s sep = splitFrom sep [] s"

text \<open>\<open>s.replace(/AM|PM/g, '')\<close>: every occurrence of AM or PM is deleted, left to right.\<close>

fun replaceAMPM :: "string \<Rightarrow> string" where
  "replaceAMPM (c # d # cs) =
     (if (c = CHR ''A'' \<or> c = CHR ''P'') \<and> d = CHR ''M''
      then replaceAMPM cs else c # replaceAMPM (d # cs))"
| "replaceAMPM cs = cs"

text \<open>
  \<open>Number(s)\<close> on the strings that clock times are made of: white space around the
  literal is ignored, the empty string is 0, a string of decimal digits is its value, and
  a string with any other character in it (a letter, a colon, an inner space) is NaN.
  Signs, fractions, exponents, radix prefixes and \<open>Infinity\<close>, which \<open>Number\<close> also
  reads, are not part of this model, which takes them for NaN; the theorems below apply
  \<open>Number\<close> to digit strings and to the text \<open>Invalid Date\<close> only, or hold whatever
  \<open>Number\<close> returns.
\<close>

definition isDigit :: "char \<Rightarrow> bool" where
  "isDigit c = (c \<in> set ''0123456789'')"

definition digitVal :: "char \<Rightarrow> int" where
  "digitVal c = int (length (takeWhile (\<lambda>d. d \<noteq> c) ''0123456789''))"

definition Number :: "string \<Rightarrow> jsnum" where
  "Number s =
     (let t = trim s in
      if t = [] then Num 0
      else if list_all isDigit t then Num (foldl (\<lambda>n c. 10 * n + digitVal c) 0 t)
      else NaN)"

text \<open>Reading an array element that may be missing: \<open>xs[i]\<close> is \<open>undefined\<close> out of range.\<close>

fun element :: "'a list \<Rightarrow> nat \<Rightarrow> 'a option" where
  "element [] i = None"
| "element (x # xs) 0 = Some x"
| "element (x # xs) (Suc i) = element xs i"

subsection \<open>Dates in the host's time zone\<close>

text \<open>
  The host supplies the two things the code takes from its environment: the local time
  zone (\<open>tzOffset t\<close> is the offset of local time from UTC, in minutes east of
  Greenwich, at the instant \<open>t\<close>) and the built-in parser behind \<open>new Date(string)\<close>
  (\<open>dateParse\<close>, which yields NaN, here \<open>None\<close>, for an unreadable string).
\<close>

record host =
  tzOffset :: "int \<Rightarrow> int"
  dateParse :: "string \<Rightarrow> int option"

definition localMillis :: "host \<Rightarrow> int \<Rightarrow> int" where
  "localMillis h t = t + tzOffset h t * 60000"

definition weekdayNames :: "string list" where
  "weekdayNames = [''Sunday'', ''Monday'', ''Tuesday'', ''Wednesday'', ''Thursday'',
                   ''Friday'', ''Saturday'']"

text \<open>
  \<open>date.toLocaleDateString('en-US', { weekday: 'long' })\<close>: the name of the local day of
  the week (1 January 1970 was a Thursday); an invalid date prints as \<open>Invalid Date\<close>.
\<close>

definition toLocaleDateString :: "host \<Rightarrow> int option \<Rightarrow> string" where
  "toLocaleDateString h d =
     (case d of
        None \<Rightarrow> ''Invalid Date''
      | Some t \<Rightarrow> weekdayNames ! nat ((localMillis h t div 86400000 + 4) mod 7))"

definition twoDigits :: "int \<Rightarrow> string" where
  "twoDigits n = [''0123456789'' ! nat (n div 10 mod 10), ''0123456789'' ! nat (n mod 10)]"

text \<open>
  \<open>date.toLocaleTimeString('en-US', { hour: '2-digit', minute: '2-digit' })\<close>: the local
  time on the 12-hour clock, as in \<open>09:05 AM\<close> or \<open>12:30 PM\<close>; seconds and milliseconds
  are dropped. The character before AM or PM is a space here; engines that print a
  narrow no-break space there give the same conversion, since \<open>trim\<close> removes either.
\<close>

definition toLocaleTimeString :: "host \<Rightarrow> int option \<Rightarrow> string" where
  "toLocaleTimeString h d =
     (case d of
        None \<Rightarrow> ''Invalid Date''
      | Some t \<Rightarrow>
          (let m = (localMillis h t div 60000) mod 1440;
               hr = m div 60;
               mi = m mod 60;
               h12 = (if hr mod 12 = 0 then 12 else hr mod 12)
           in twoDigits h12 @ '':'' @ twoDigits mi @ '' '' @ (if hr < 12 then ''AM'' else ''PM'')))"

text \<open>
  \<open>date.toISOString()\<close> raises a RangeError on an invalid date. The text it prints is
  only interpolated into log lines, so the model keeps the time value in its place.
\<close>

definition toISOString :: "int option \<Rightarrow> error + int" where
  "toISOString d = (case d of None \<Rightarrow> Inl RangeError | Some t \<Rightarrow> Inr t)"

section \<open>Data model\<close>

record workingHour =
  day :: string
  timeSlot :: string

text \<open>
  A doctor (\<open>domain/entities/doctor.js\<close>). The field \<open>doctor_workingHours\<close> is the array
  \<open>doctor.workingHours.hours\<close> of the doctor's WorkingHours value object.
\<close>

record doctor =
  doctor_id :: string
  doctor_rcm :: string
  doctor_name :: string
  doctor_specialty :: "string list"
  doctor_phoneNumber :: string
  doctor_workingHours :: "workingHour list"

text \<open>
  A patient (\<open>domain/entities/patient.js\<close>), with its scalar fields; the address, the
  emergency contact and the patient's collections play no part in scheduling.
\<close>

record patient =
  patient_id :: string
  patient_identificationDocument :: string
  patient_name :: string
  patient_dateOfBirth :: string
  patient_gender :: string
  patient_bloodType :: string
  patient_phoneNumber :: string
  patient_email :: string

text \<open>
  The appointment object literal built by \<open>AppointmentService.execute\<close>. It refers to
  the patient and doctor objects themselves, not to copies; \<open>id\<close> and \<open>reason\<close> are
  whatever the request carried, possibly \<open>undefined\<close>.
\<close>

record appointment =
  appointment_id :: "string option"
  appointment_date :: "int option"
  appointment_patient :: addr
  appointment_doctor :: addr
  appointment_reason :: "string option"
  appointment_status :: string
  appointment_observations :: string

text \<open>
  The request passed to \<open>execute\<close>. The ids come either flat (\<open>patientId\<close>,
  \<open>doctorId\<close>) or nested (\<open>patient: {id}\<close>, \<open>doctor: {id}\<close>); a missing nested object
  is \<open>None\<close>, a nested object without an id is \<open>Some None\<close>.
\<close>

record appointmentData =
  data_id :: "string option"
  data_date :: jsValue
  data_patientId :: "string option"
  data_patient :: "string option option"
  data_doctorId :: "string option"
  data_doctor :: "string option option"
  data_reason :: "string option"
  data_status :: "string option"
  data_observations :: "string option"

text \<open>
  A line written with \<open>console.log\<close>, as the data interpolated into its template: the
  two rejection messages of the availability service and the e-mail notification
  (recipient, doctor's name, date of the appointment).
\<close>

datatype logLine =
    ConflictingAppointment int
  | OutsideWorkingHours int
  | SendingEmail string string "int option"

text \<open>
  The state of the process: the two object heaps, the three repositories (each a
  \<open>Map\<close>, kept as an association list in insertion order) and the console.
\<close>

record world =
  doctorHeap :: "addr \<Rightarrow> doctor"
  patientHeap :: "addr \<Rightarrow> patient"
  doctorRepository :: "(string \<times> addr) list"
  patientRepository :: "(string \<times> addr) list"
  appointmentRepository :: "(string option \<times> appointment) list"
  console :: "logLine list"

section \<open>The generic repository\<close>

text \<open>
  Modelled from the spec: the base class \<open>Repository\<close>
  (\<open>domain/repositories/repository.js\<close>), a keyed in-memory collection. \<open>findById\<close>
  returns the entity or an absent result and never raises. The doctor, patient and
  appointment repositories extend this class and use its \<open>findById\<close>, \<open>findAll\<close>,
  \<open>add\<close> and \<open>update\<close> as they are.
\<close>

definition repo_findById :: "'k \<Rightarrow> ('k \<times> 'v) list \<Rightarrow> 'v option" where
  "repo_findById k r = map_of r k"

text \<open>
  Modelled from the spec: \<open>Repository.findAll\<close> returns all values in insertion order.
\<close>

definition repo_findAll :: "('k \<times> 'v) list \<Rightarrow> 'v list" where
  "repo_findAll r = map snd r"

text \<open>
  Modelled from the spec: \<open>Repository.add\<close> fails if the id is already present, and
  otherwise stores the entity under the id.
\<close>

definition repo_add :: "'k \<Rightarrow> 'v \<Rightarrow> ('k \<times> 'v) list \<Rightarrow> error + ('k \<times> 'v) list" where
  "repo_add k v r = (if k \<in> fst ` set r then Inl DuplicateKey else Inr (r @ [(k, v)]))"

text \<open>
  Modelled from the spec: \<open>Repository.update\<close> fails if the id is absent, and otherwise
  replaces the entity stored under the id.
\<close>

definition repo_update :: "'k \<Rightarrow> 'v \<Rightarrow> ('k \<times> 'v) list \<Rightarrow> error + ('k \<times> 'v) list" where
  "repo_update k v r =
     (if k \<in> fst ` set r
      then Inr (map (\<lambda>(k', v'). if k' = k then (k', v) else (k', v')) r)
      else Inl MissingKey)"

section \<open>DoctorWorkingHoursService\<close>

text \<open>
  \<open>addDoctorWorkingHours(doctorId, day, timeSlot)\<close>: looks the doctor up, rejects a
  pair that the linear scan finds in the list, otherwise pushes the pair onto the
  doctor's own array and writes the doctor back under \<open>doctor.id\<close>. Every function of
  the services returns the result (or the error raised) together with the state it leaves.
\<close>

definition addDoctorWorkingHours ::
  "world \<Rightarrow> string \<Rightarrow> string \<Rightarrow> string \<Rightarrow> (error + addr) \<times> world" where
  "addDoctorWorkingHours w doctorId dy ts =
     (case repo_findById doctorId (doctorRepository w) of
        None \<Rightarrow> (Inl (Error ''Doctor not found''), w)
      | Some a \<Rightarrow>
          (let doc = doctorHeap w a;
               hasWorkingHours =
                 list_ex (\<lambda>workingHour. day workingHour = dy \<and> timeSlot workingHour = ts)
                   (doctor_workingHours doc)
           in if hasWorkingHours
              then (Inl (Error ''Working hours already exists for this doctor''), w)
              else
                (let doc' = doc\<lparr>doctor_workingHours :=
                              doctor_workingHours doc @ [\<lparr>day = dy, timeSlot = ts\<rparr>]\<rparr>;
                     w1 = w\<lparr>doctorHeap := (doctorHeap w)(a := doc')\<rparr>
                 in case repo_update (doctor_id doc') a (doctorRepository w1) of
                      Inl e \<Rightarrow> (Inl e, w1)
                    | Inr r \<Rightarrow> (Inr a, w1\<lparr>doctorRepository := r\<rparr>))))"

text \<open>
  \<open>removeWorkingHours(doctorId, day, timeSlot)\<close>: replaces the doctor's array by the
  entries that pass the filter \<open>hour.day !== day && hour.timeSlot !== timeSlot\<close>.
\<close>

definition removeWorkingHours ::
  "world \<Rightarrow> string \<Rightarrow> string \<Rightarrow> string \<Rightarrow> (error + addr) \<times> world" where
  "removeWorkingHours w doctorId dy ts =
     (case repo_findById doctorId (doctorRepository w) of
        None \<Rightarrow> (Inl (Error ''Doctor not found''), w)
      | Some a \<Rightarrow>
          (let doc = doctorHeap w a;
               doc' = doc\<lparr>doctor_workingHours :=
                        filter (\<lambda>hour. day hour \<noteq> dy \<and> timeSlot hour \<noteq> ts)
                          (doctor_workingHours doc)\<rparr>;
               w1 = w\<lparr>doctorHeap := (doctorHeap w)(a := doc')\<rparr>
           in case repo_update (doctor_id doc') a (doctorRepository w1) of
                Inl e \<Rightarrow> (Inl e, w1)
              | Inr r \<Rightarrow> (Inr a, w1\<lparr>doctorRepository := r\<rparr>)))"

text \<open>
  Calling a value that is an array: \<open>xs()\<close> raises a TypeError (\<open>xs is not a function\<close>),
  whatever the array holds.
\<close>

definition callArray :: "'a list \<Rightarrow> error + 'b" where
  "callArray xs = Inl TypeError"

text \<open>\<open>listWorkingHours(doctorId)\<close> returns \<open>doctor.workingHours.hours()\<close>.\<close>

definition listWorkingHours :: "world \<Rightarrow> string \<Rightarrow> error + workingHour list" where
  "listWorkingHours w doctorId =
     (case repo_findById doctorId (doctorRepository w) of
        None \<Rightarrow> Inl (Error ''Doctor not found'')
      | Some a \<Rightarrow> callArray (doctor_workingHours (doctorHeap w a)))"

section \<open>DoctorAvailabilityService: time slots and working hours\<close>

text \<open>
  The inner function \<open>timeToMinutes\<close> of \<open>isTimeWithinSlot\<close>. Its argument is
  \<open>undefined\<close> (\<open>None\<close>) when the destructured array was too short, and then
  \<open>timeStr.includes\<close> raises a TypeError. \<open>hours\<close> and \<open>minutes\<close> are the first two
  pieces of the cleaned string, read by \<open>Number\<close>; \<open>minutes || 0\<close> turns a missing,
  NaN or zero \<open>minutes\<close> into 0.
\<close>

definition timeToMinutes :: "string option \<Rightarrow> error + jsnum" where
  "timeToMinutes timeStr =
     (case timeStr of
        None \<Rightarrow> Inl TypeError
      | Some s \<Rightarrow>
          (let isPM = includes_js s ''PM'';
               isAM = includes_js s ''AM'';
               cleanTime = trim (replaceAMPM s);
               parts = map Number (split cleanTime '':'');
               hours = (case element parts 0 of None \<Rightarrow> NaN | Some n \<Rightarrow> n);
               minutes = element parts 1;
               adjustedHours =
                 (if isPM \<and> hours \<noteq> Num 12 then js_add hours (Num 12)
                  else if isAM \<and> hours = Num 12 then Num 0
                  else hours)
           in Inr (js_add (js_mul adjustedHours (Num 60))
                     (case minutes of Some (Num m) \<Rightarrow> Num m | _ \<Rightarrow> Num 0))))"

text \<open>
  \<open>isTimeWithinSlot(time, timeSlot)\<close>: the slot is split at \<open>' - '\<close>, the first two
  pieces are the boundaries, and the three clock strings are converted in the order
  time, start, end before the inclusive comparison.
\<close>

definition isTimeWithinSlot :: "string \<Rightarrow> string \<Rightarrow> error + bool" where
  "isTimeWithinSlot time slot =
     (let pieces = split slot '' - '';
          startTime = element pieces 0;
          endTime = element pieces 1
      in case timeToMinutes (Some time) of
           Inl e \<Rightarrow> Inl e
         | Inr timeInMinutes \<Rightarrow>
             (case timeToMinutes startTime of
                Inl e \<Rightarrow> Inl e
              | Inr startInMinutes \<Rightarrow>
                  (case timeToMinutes endTime of
                     Inl e \<Rightarrow> Inl e
                   | Inr endInMinutes \<Rightarrow>
                       Inr (js_ge timeInMinutes startInMinutes
                            \<and> js_le timeInMinutes endInMinutes))))"

text \<open>
  The \<open>some\<close> of \<open>isWithinWorkingHours\<close>: the entries are visited in order, the slot of
  an entry is only examined when its day is the requested one, and the scan stops at the
  first entry that matches (or at the first error).
\<close>

fun someWorkingHour :: "string \<Rightarrow> string \<Rightarrow> workingHour list \<Rightarrow> error + bool" where
  "someWorkingHour dayOfWeek time [] = Inr False"
| "someWorkingHour dayOfWeek time (workingHour # rest) =
     (if day workingHour = dayOfWeek
      then (case isTimeWithinSlot time (timeSlot workingHour) of
              Inl e \<Rightarrow> Inl e
            | Inr b \<Rightarrow> if b then Inr True else someWorkingHour dayOfWeek time rest)
      else someWorkingHour dayOfWeek time rest)"

definition isWithinWorkingHours :: "host \<Rightarrow> doctor \<Rightarrow> int option \<Rightarrow> error + bool" where
  "isWithinWorkingHours h doc date =
     someWorkingHour (toLocaleDateString h date) (toLocaleTimeString h date)
       (doctor_workingHours doc)"

section \<open>AppointmentRepository\<close>

text \<open>
  \<open>findByDoctorId(doctorId)\<close> filters \<open>findAll()\<close> with the callback
  \<open>(appointment) => (appointment.doctor.id = doctorId)\<close>. The callback is an assignment:
  it stores \<open>doctorId\<close> in the doctor object of every appointment it visits, and its
  value, which decides whether the appointment is kept, is \<open>doctorId\<close> itself.
\<close>

definition assignDoctorId :: "string \<Rightarrow> (addr \<Rightarrow> doctor) \<Rightarrow> appointment \<Rightarrow> (addr \<Rightarrow> doctor)" where
  "assignDoctorId doctorId heap a =
     heap(appointment_doctor a := (heap (appointment_doctor a))\<lparr>doctor_id := doctorId\<rparr>)"

definition findByDoctorId :: "world \<Rightarrow> string \<Rightarrow> appointment list \<times> world" where
  "findByDoctorId w doctorId =
     (let all = repo_findAll (appointmentRepository w)
      in (filter (\<lambda>a. truthy doctorId) all,
          w\<lparr>doctorHeap := foldl (assignDoctorId doctorId) (doctorHeap w) all\<rparr>))"

section \<open>DoctorAvailabilityService: the conflict check and the decision\<close>

text \<open>
  \<open>hasAppointmentConflict(doctorId, date)\<close>: some appointment returned by
  \<open>findByDoctorId\<close> has the time value of \<open>date\<close>.
\<close>

definition hasAppointmentConflict :: "world \<Rightarrow> string \<Rightarrow> int option \<Rightarrow> bool \<times> world" where
  "hasAppointmentConflict w doctorId date =
     (case findByDoctorId w doctorId of
        (doctorAppointments, w1) \<Rightarrow>
          (list_ex (\<lambda>a. sameTime (appointment_date a) date) doctorAppointments, w1))"

text \<open>
  \<open>isDoctorAvailable(doctorId, date)\<close>. The two rejection branches print
  \<open>date.toISOString()\<close> before they return false.
\<close>

definition isDoctorAvailable ::
  "host \<Rightarrow> world \<Rightarrow> string \<Rightarrow> jsValue \<Rightarrow> (error + bool) \<times> world" where
  "isDoctorAvailable h w doctorId date =
     (case repo_findById doctorId (doctorRepository w) of
        None \<Rightarrow> (Inl (Error ''Doctor not found''), w)
      | Some a \<Rightarrow>
          (case date of
             DateObj t \<Rightarrow>
               (case hasAppointmentConflict w doctorId t of
                  (conflict, w1) \<Rightarrow>
                    if conflict
                    then (case toISOString t of
                            Inl e \<Rightarrow> (Inl e, w1)
                          | Inr stamp \<Rightarrow>
                              (Inr False, w1\<lparr>console := console w1 @ [ConflictingAppointment stamp]\<rparr>))
                    else (case isWithinWorkingHours h (doctorHeap w1 a) t of
                            Inl e \<Rightarrow> (Inl e, w1)
                          | Inr within \<Rightarrow>
                              if within then (Inr True, w1)
                              else (case toISOString t of
                                      Inl e \<Rightarrow> (Inl e, w1)
                                    | Inr stamp \<Rightarrow>
                                        (Inr False,
                                         w1\<lparr>console := console w1 @ [OutsideWorkingHours stamp]\<rparr>))))
           | StringVal s \<Rightarrow> (Inl (Error ''Invalid date''), w)
           | OtherVal \<Rightarrow> (Inl (Error ''Invalid date''), w)))"

section \<open>NotificationService and AppointmentService\<close>

definition notifyAppointmentScheduled :: "world \<Rightarrow> appointment \<Rightarrow> world" where
  "notifyAppointmentScheduled w a =
     w\<lparr>console := console w @
         [SendingEmail (patient_email (patientHeap w (appointment_patient a)))
            (doctor_name (doctorHeap w (appointment_doctor a))) (appointment_date a)]\<rparr>"

text \<open>\<open>v || d\<close> for a string \<open>v\<close> that may be \<open>undefined\<close> and a default string \<open>d\<close>.\<close>

definition orDefault :: "string option \<Rightarrow> string \<Rightarrow> string" where
  "orDefault v d = (case v of None \<Rightarrow> d | Some s \<Rightarrow> if truthy s then s else d)"

text \<open>
  \<open>execute(appointmentData)\<close>: a string date is parsed, anything that is then not a
  valid \<open>Date\<close> is refused; the ids are taken flat or nested; then come the two
  look-ups, the availability check, the insertion and the notification.
\<close>

definition requestDate :: "host \<Rightarrow> appointmentData \<Rightarrow> jsValue" where
  "requestDate h appointmentData =
     (case data_date appointmentData of
        StringVal s \<Rightarrow> DateObj (dateParse h s)
      | DateObj t \<Rightarrow> DateObj t
      | OtherVal \<Rightarrow> OtherVal)"

definition requestPatientId :: "appointmentData \<Rightarrow> string option" where
  "requestPatientId appointmentData =
     orElse (data_patientId appointmentData)
       (case data_patient appointmentData of None \<Rightarrow> None | Some i \<Rightarrow> i)"

definition requestDoctorId :: "appointmentData \<Rightarrow> string option" where
  "requestDoctorId appointmentData =
     orElse (data_doctorId appointmentData)
       (case data_doctor appointmentData of None \<Rightarrow> None | Some i \<Rightarrow> i)"

definition execute :: "host \<Rightarrow> world \<Rightarrow> appointmentData \<Rightarrow> (error + appointment) \<times> world" where
  "execute h w appointmentData =
     (case requestDate h appointmentData of
        DateObj (Some t) \<Rightarrow>
          (case (requestPatientId appointmentData, requestDoctorId appointmentData) of
             (Some pid, Some did) \<Rightarrow>
               if truthy pid \<and> truthy did
               then
                 (case repo_findById pid (patientRepository w) of
                    None \<Rightarrow> (Inl (Error ''Patient not found''), w)
                  | Some p \<Rightarrow>
                      (case repo_findById did (doctorRepository w) of
                         None \<Rightarrow> (Inl (Error ''Doctor not found''), w)
                       | Some d \<Rightarrow>
                           (case isDoctorAvailable h w did (DateObj (Some t)) of
                              (Inl e, w1) \<Rightarrow> (Inl e, w1)
                            | (Inr available, w1) \<Rightarrow>
                                if available
                                then
                                  (let a = \<lparr>appointment_id = data_id appointmentData,
                                            appointment_date = Some t,
                                            appointment_patient = p,
                                            appointment_doctor = d,
                                            appointment_reason = data_reason appointmentData,
                                            appointment_status =
                                              orDefault (data_status appointmentData) ''scheduled'',
                                            appointment_observations =
                                              orDefault (data_observations appointmentData) []\<rparr>
                                   in case repo_add (appointment_id a) a (appointmentRepository w1) of
                                        Inl e \<Rightarrow> (Inl e, w1)
                                      | Inr r \<Rightarrow>
                                          (Inr a,
                                           notifyAppointmentScheduled
                                             (w1\<lparr>appointmentRepository := r\<rparr>) a))
                                else (Inl (Error ''Doctor is not available at the requested time''),
                                      w1))))
               else (Inl (Error ''Patient ID and Doctor ID are required''), w)
           | _ \<Rightarrow> (Inl (Error ''Patient ID and Doctor ID are required''), w))
      | _ \<Rightarrow> (Inl (Error ''Invalid appointment date''), w))"

text \<open>\<open>AppointmentService.findById(id)\<close>.\<close>

definition findById :: "world \<Rightarrow> string option \<Rightarrow> error + appointment" where
  "findById w i =
     (case repo_findById i (appointmentRepository w) of
        None \<Rightarrow> Inl (Error ''Appointment not found'')
      | Some a \<Rightarrow> Inr a)"

section \<open>Notions used in the statements\<close>

text \<open>A call raises when its result is an error.\<close>

definition raises :: "error + 'a \<Rightarrow> bool" where
  "raises r = (case r of Inl e \<Rightarrow> True | Inr v \<Rightarrow> False)"

text \<open>A valid date value: a \<open>Date\<close> object whose time value is not NaN.\<close>

definition validDate :: "jsValue \<Rightarrow> bool" where
  "validDate date = (case date of DateObj (Some t) \<Rightarrow> True | _ \<Rightarrow> False)"

text \<open>Every time slot of the doctor stored under the id contains the separator.\<close>

definition slotsHaveSeparator :: "world \<Rightarrow> string \<Rightarrow> bool" where
  "slotsHaveSeparator w doctorId =
     (case repo_findById doctorId (doctorRepository w) of
        None \<Rightarrow> True
      | Some a \<Rightarrow> list_all (\<lambda>wh. includes_js (timeSlot wh) '' - '')
                   (doctor_workingHours (doctorHeap w a)))"

text \<open>The local minute of the day of an instant, from 0 to 1439.\<close>

definition minuteOfDay :: "host \<Rightarrow> int \<Rightarrow> int" where
  "minuteOfDay h t = (localMillis h t div 60000) mod 1440"

section \<open>A small clinic\<close>

text \<open>
  Concrete data for the closed theorems: a host on UTC, three doctors, one patient.
  Dr Smith works on Monday from 09:00 AM to 05:00 PM; Dr Jones has three entries; the
  only entry of Dr Lee has a slot with no \<open>' - '\<close> in it. \<open>monday t\<close> is the instant
  \<open>t\<close> milliseconds after midnight (UTC) of Monday 1 July 2024.
\<close>

definition monday :: "int \<Rightarrow> int" where
  "monday t = 1719792000000 + t"

definition hours :: "int \<Rightarrow> int" where
  "hours n = n * 3600000"

definition hostUTC :: host where
  "hostUTC = \<lparr>tzOffset = (\<lambda>t. 0),
              dateParse = (\<lambda>s. if s = ''2024-07-01T10:00:00Z'' then Some (monday (hours 10))
                                else None)\<rparr>"

definition drSmith :: doctor where
  "drSmith = \<lparr>doctor_id = ''101'', doctor_rcm = ''CRM12345'', doctor_name = ''Smith'',
              doctor_specialty = [''Cardiology'', ''General Medicine''],
              doctor_phoneNumber = ''+1122334455'',
              doctor_workingHours = [\<lparr>day = ''Monday'', timeSlot = ''09:00 AM - 05:00 PM''\<rparr>]\<rparr>"

definition drJones :: doctor where
  "drJones = \<lparr>doctor_id = ''102'', doctor_rcm = ''CRM67890'', doctor_name = ''Jones'',
              doctor_specialty = [''Pediatrics''],
              doctor_phoneNumber = ''+1122334466'',
              doctor_workingHours =
                [\<lparr>day = ''Monday'', timeSlot = ''09:00 AM - 05:00 PM''\<rparr>,
                 \<lparr>day = ''Monday'', timeSlot = ''06:00 PM - 08:00 PM''\<rparr>,
                 \<lparr>day = ''Tuesday'', timeSlot = ''09:00 AM - 05:00 PM''\<rparr>]\<rparr>"

definition drLee :: doctor where
  "drLee = \<lparr>doctor_id = ''103'', doctor_rcm = ''CRM24680'', doctor_name = ''Lee'',
            doctor_specialty = [],
            doctor_phoneNumber = ''+1122334477'',
            doctor_workingHours = [\<lparr>day = ''Monday'', timeSlot = ''09:00 AM''\<rparr>]\<rparr>"

definition johnDoe :: patient where
  "johnDoe = \<lparr>patient_id = ''1'', patient_identificationDocument = ''123.123.123-12'',
              patient_name = ''John Doe'', patient_dateOfBirth = ''1990-01-01'',
              patient_gender = ''Male'', patient_bloodType = ''O+'',
              patient_phoneNumber = ''+1234567890'',
              patient_email = ''john.doe@example.com''\<rparr>"

text \<open>The clinic with no appointment yet.\<close>

definition clinic :: world where
  "clinic = \<lparr>doctorHeap = (\<lambda>a. if a = 1 then drSmith else if a = 2 then drJones else drLee),
             patientHeap = (\<lambda>a. johnDoe),
             doctorRepository = [(''101'', 1), (''102'', 2), (''103'', 3)],
             patientRepository = [(''1'', 1)],
             appointmentRepository = [],
             console = []\<rparr>"

text \<open>Dr Jones's appointment on Monday at 10:00 AM, and the clinic that holds it.\<close>

definition jonesAt10 :: appointment where
  "jonesAt10 = \<lparr>appointment_id = Some ''200'', appointment_date = Some (monday (hours 10)),
                appointment_patient = 1, appointment_doctor = 2,
                appointment_reason = Some ''Vaccination'', appointment_status = ''scheduled'',
                appointment_observations = []\<rparr>"

definition clinicBooked :: world where
  "clinicBooked = clinic\<lparr>appointmentRepository := [(Some ''200'', jonesAt10)]\<rparr>"

text \<open>A request for Dr Smith on Monday at 10:00 AM, with the ids given flat.\<close>

definition checkup :: appointmentData where
  "checkup = \<lparr>data_id = Some ''201'', data_date = StringVal ''2024-07-01T10:00:00Z'',
              data_patientId = Some ''1'', data_patient = None,
              data_doctorId = Some ''101'', data_doctor = None,
              data_reason = Some ''Regular Checkup'', data_status = None,
              data_observations = None\<rparr>"

text \<open>The same request from a patient id that the repository does not hold.\<close>

definition ghostRequest :: appointmentData where
  "ghostRequest = checkup\<lparr>data_patientId := Some ''ghost''\<rparr>"

section \<open>Facts about the string helpers\<close>

lemma splitFrom_not_Nil: "splitFrom sep cur s \<noteq> []"
  by (induction sep cur s rule: splitFrom.induct) auto

lemma element_0_Some: "xs \<noteq> [] \<Longrightarrow> \<exists>x. element xs 0 = Some x"
  by (cases xs) auto

lemma element_1_None_iff: "(element xs (Suc 0) = None) = (length xs \<le> 1)"
  by (cases xs; cases "tl xs") auto

text \<open>A split yields a second piece exactly when the separator occurs in the string.\<close>

lemma length_splitFrom_includes:
  "sep \<noteq> [] \<Longrightarrow> (2 \<le> length (splitFrom sep cur s)) = includes_js s sep"
proof (induction s arbitrary: cur)
  case Nil
  then show ?case by simp
next
  case (Cons c cs)
  show ?case
  proof (cases "prefix sep (c # cs)")
    case True
    have "1 \<le> length (splitFrom sep [] (drop (length sep) (c # cs)))"
      using splitFrom_not_Nil [of sep "[]" "drop (length sep) (c # cs)"]
      by (cases "splitFrom sep [] (drop (length sep) (c # cs))") auto
    with True Cons.prems show ?thesis by simp
  next
    case False
    with Cons show ?thesis by simp
  qed
qed

lemma element_split_second:
  "sep \<noteq> [] \<Longrightarrow> (element (split s sep) (Suc 0) = None) = (\<not> includes_js s sep)"
  using length_splitFrom_includes [of sep "[]" s]
  by (auto simp: element_1_None_iff split_def)

lemma element_split_first: "\<exists>x. element (split s sep) 0 = Some x"
  unfolding split_def by (rule element_0_Some) (rule splitFrom_not_Nil)

section \<open>Facts about the clock conversion\<close>

lemma timeToMinutes_Some: "\<exists>n. timeToMinutes (Some s) = Inr n"
  by (simp add: timeToMinutes_def Let_def)

lemma timeToMinutes_None: "timeToMinutes None = Inl TypeError"
  by (simp add: timeToMinutes_def)

lemma isTimeWithinSlot_separator:
  assumes "includes_js slot '' - ''"
  shows "\<exists>b. isTimeWithinSlot time slot = Inr b"
proof -
  obtain s where s: "element (split slot '' - '') 0 = Some s"
    using element_split_first by blast
  from assms obtain e where e: "element (split slot '' - '') (Suc 0) = Some e"
    using element_split_second [of "'' - ''" slot] by auto
  obtain n1 where n1: "timeToMinutes (Some time) = Inr n1" using timeToMinutes_Some by blast
  obtain n2 where n2: "timeToMinutes (Some s) = Inr n2" using timeToMinutes_Some by blast
  obtain n3 where n3: "timeToMinutes (Some e) = Inr n3" using timeToMinutes_Some by blast
  show ?thesis
    by (simp add: isTimeWithinSlot_def Let_def s e n1 n2 n3)
qed

lemma isTimeWithinSlot_no_separator:
  assumes "\<not> includes_js slot '' - ''"
  shows "isTimeWithinSlot time slot = Inl TypeError"
proof -
  obtain s where s: "element (split slot '' - '') 0 = Some s"
    using element_split_first by blast
  from assms have e: "element (split slot '' - '') (Suc 0) = None"
    using element_split_second [of "'' - ''" slot] by auto
  obtain n1 where n1: "timeToMinutes (Some time) = Inr n1" using timeToMinutes_Some by blast
  obtain n2 where n2: "timeToMinutes (Some s) = Inr n2" using timeToMinutes_Some by blast
  show ?thesis
    by (simp add: isTimeWithinSlot_def Let_def s e n1 n2 timeToMinutes_None)
qed

text \<open>
  An invalid date prints as \<open>Invalid Date\<close>, which converts to NaN, and NaN is within
  no slot.
\<close>

lemma timeToMinutes_Invalid_Date: "timeToMinutes (Some ''Invalid Date'') = Inr NaN"
  by code_simp

lemma isTimeWithinSlot_Invalid_Date: "isTimeWithinSlot ''Invalid Date'' slot \<noteq> Inr True"
  by (simp add: isTimeWithinSlot_def Let_def timeToMinutes_Invalid_Date js_ge_def
      split: sum.splits)

lemma someWorkingHour_Invalid_Date: "someWorkingHour d ''Invalid Date'' hs \<noteq> Inr True"
  using isTimeWithinSlot_Invalid_Date
  by (induction hs) (auto split: sum.splits)

lemma someWorkingHour_separators:
  "list_all (\<lambda>wh. includes_js (timeSlot wh) '' - '') hs \<Longrightarrow>
   \<exists>b. someWorkingHour d time hs = Inr b"
proof (induction hs)
  case Nil
  show ?case by auto
next
  case (Cons wh hs)
  from Cons.prems obtain b where b: "isTimeWithinSlot time (timeSlot wh) = Inr b"
    using isTimeWithinSlot_separator [of "timeSlot wh" time] by auto
  from Cons obtain b' where b': "someWorkingHour d time hs = Inr b'" by auto
  show ?case by (auto simp: b b')
qed

lemma js_ge_not_NaN: "js_ge a b \<Longrightarrow> a \<noteq> NaN \<and> b \<noteq> NaN"
  by (auto simp: js_ge_def split: jsnum.splits)

lemma js_le_not_NaN: "js_le a b \<Longrightarrow> a \<noteq> NaN \<and> b \<noteq> NaN"
  by (auto simp: js_le_def split: jsnum.splits)

section \<open>The printed clock time converts back to the minute of the day\<close>

text \<open>
  \<open>toLocaleTimeString\<close> prints two digits, a colon, two digits, a space and AM or PM;
  \<open>timeToMinutes\<close> reads such a string back as the minute of the day it was printed
  from, for every instant and every time zone.
\<close>

lemma digit_cases:
  assumes "0 \<le> k" "k < (10::int)"
  shows "k = 0 \<or> k = 1 \<or> k = 2 \<or> k = 3 \<or> k = 4 \<or> k = 5 \<or> k = 6 \<or> k = 7 \<or> k = 8 \<or> k = 9"
  using assms by arith

lemma digit_char:
  assumes "0 \<le> k" "k < (10::int)"
  shows "isDigit (''0123456789'' ! nat k) \<and> digitVal (''0123456789'' ! nat k) = k"
  using digit_cases [OF assms] by (elim disjE) (simp_all add: isDigit_def digitVal_def)

lemma isDigit_not_special:
  assumes "isDigit c"
  shows "c \<noteq> CHR ''A''" "c \<noteq> CHR ''P''" "c \<noteq> CHR ''M''" "c \<noteq> CHR '':''" "c \<noteq> CHR '' ''"
    "CHR ''A'' \<noteq> c" "CHR ''P'' \<noteq> c" "CHR ''M'' \<noteq> c" "CHR '':'' \<noteq> c" "CHR '' '' \<noteq> c"
  using assms by (auto simp: isDigit_def)

lemma isDigit_not_space:
  assumes "isDigit c"
  shows "\<not> isWhiteSpace c"
  using assms by (auto simp: isDigit_def isWhiteSpace_def)

lemma Number_two_digits:
  assumes "isDigit a" "isDigit b"
  shows "Number [a, b] = Num (10 * digitVal a + digitVal b)"
  using assms isDigit_not_space [of a] isDigit_not_space [of b]
  by (simp add: Number_def trim_def)

lemma split_clock:
  assumes "isDigit a" "isDigit b" "isDigit c" "isDigit d"
  shows "split [a, b, CHR '':'', c, d] '':'' = [[a, b], [c, d]]"
  by (simp add: split_def isDigit_not_special [OF assms(1)] isDigit_not_special [OF assms(2)]
      isDigit_not_special [OF assms(3)] isDigit_not_special [OF assms(4)])

lemma replaceAMPM_clock:
  assumes "isDigit a" "isDigit b" "isDigit c" "isDigit d"
  shows "replaceAMPM [a, b, CHR '':'', c, d, CHR '' '', x, CHR ''M''] =
         (if x = CHR ''A'' \<or> x = CHR ''P'' then [a, b, CHR '':'', c, d, CHR '' '']
          else [a, b, CHR '':'', c, d, CHR '' '', x, CHR ''M''])"
  by (simp add: isDigit_not_special [OF assms(1)] isDigit_not_special [OF assms(2)]
      isDigit_not_special [OF assms(3)] isDigit_not_special [OF assms(4)])

lemma trim_clock:
  assumes "isDigit a" "isDigit d"
  shows "trim [a, b, CHR '':'', c, d, CHR '' ''] = [a, b, CHR '':'', c, d]"
  using isDigit_not_space [OF assms(1)] isDigit_not_space [OF assms(2)]
  by (simp add: trim_def isWhiteSpace_def)

lemma includes_clock:
  assumes "isDigit a" "isDigit b" "isDigit c" "isDigit d" and "x = CHR ''A'' \<or> x = CHR ''P''"
  shows "includes_js [a, b, CHR '':'', c, d, CHR '' '', x, CHR ''M''] ''PM'' = (x = CHR ''P'')"
    and "includes_js [a, b, CHR '':'', c, d, CHR '' '', x, CHR ''M''] ''AM'' = (x = CHR ''A'')"
  using assms(5)
  by (auto simp: isDigit_not_special [OF assms(1)] isDigit_not_special [OF assms(2)]
      isDigit_not_special [OF assms(3)] isDigit_not_special [OF assms(4)])

lemma timeToMinutes_clock:
  assumes "isDigit a" "isDigit b" "isDigit c" "isDigit d" and "x = CHR ''A'' \<or> x = CHR ''P''"
  shows "timeToMinutes (Some [a, b, CHR '':'', c, d, CHR '' '', x, CHR ''M'']) =
         Inr (Num ((let hv = 10 * digitVal a + digitVal b in
                    if x = CHR ''P'' \<and> hv \<noteq> 12 then hv + 12
                    else if x = CHR ''A'' \<and> hv = 12 then 0 else hv) * 60
                   + (10 * digitVal c + digitVal d)))"
proof -
  have r: "replaceAMPM [a, b, CHR '':'', c, d, CHR '' '', x, CHR ''M''] =
             [a, b, CHR '':'', c, d, CHR '' '']"
    unfolding replaceAMPM_clock [OF assms(1-4)] using assms(5) by simp
  note t = trim_clock [OF assms(1) assms(4), of b c]
  note inc = includes_clock [OF assms]
  note n1 = Number_two_digits [OF assms(1,2)]
  note n2 = Number_two_digits [OF assms(3,4)]
  note sp = split_clock [OF assms(1-4)]
  show ?thesis
    unfolding timeToMinutes_def option.case Let_def r t inc sp
    by (simp add: n1 n2 js_add_def js_mul_def)
qed

lemma twoDigits_chars:
  assumes "0 \<le> n" "n < 100"
  shows "\<exists>a b. twoDigits n = [a, b] \<and> isDigit a \<and> isDigit b \<and> 10 * digitVal a + digitVal b = n"
proof -
  have k1: "0 \<le> n div 10 mod 10" "n div 10 mod 10 < 10" by simp_all
  have k2: "0 \<le> n mod 10" "n mod 10 < 10" by simp_all
  have "n div 10 mod 10 = n div 10" using assms by simp
  then have "10 * (n div 10 mod 10) + n mod 10 = n" by simp
  with digit_char [OF k1] digit_char [OF k2] show ?thesis
    by (simp add: twoDigits_def)
qed

lemma hour12_bounds:
  fixes hr :: int
  assumes "0 \<le> hr" "hr < 24"
  shows "1 \<le> (if hr mod 12 = 0 then 12 else hr mod 12)"
    and "(if hr mod 12 = 0 then 12 else hr mod 12) \<le> 12"
proof -
  have "0 \<le> hr mod 12" "hr mod 12 < 12" by simp_all
  then show "1 \<le> (if hr mod 12 = 0 then 12 else hr mod 12)"
    and "(if hr mod 12 = 0 then 12 else hr mod 12) \<le> 12" by auto
qed

lemma hour12_back:
  fixes hr :: int
  assumes "0 \<le> hr" "hr < 24"
  shows "(if \<not> hr < 12 \<and> (if hr mod 12 = 0 then 12 else hr mod 12) \<noteq> 12
          then (if hr mod 12 = 0 then 12 else hr mod 12) + 12
          else if hr < 12 \<and> (if hr mod 12 = 0 then 12 else hr mod 12) = 12 then 0
          else (if hr mod 12 = 0 then 12 else hr mod 12)) = hr"
proof (cases "hr < 12")
  case True
  with assms have "hr mod 12 = hr" by simp
  with True show ?thesis by auto
next
  case False
  have "(hr - 12) mod 12 = hr - 12"
    by (rule mod_pos_pos_trivial) (use False assms in simp_all)
  moreover have "(hr - 12 + 12) mod 12 = (hr - 12) mod 12" by (rule mod_add_self2)
  moreover have "hr - 12 + 12 = hr" by simp
  ultimately have "hr mod 12 = hr - 12" by (simp only:)
  with False assms \<open>hr mod 12 = hr - 12\<close> show ?thesis by auto
qed

lemma timeToMinutes_toLocaleTimeString:
  "timeToMinutes (Some (toLocaleTimeString h (Some t))) = Inr (Num (minuteOfDay h t))"
proof -
  define m where "m = minuteOfDay h t"
  define hr where "hr = m div 60"
  define mi where "mi = m mod 60"
  define h12 where "h12 = (if hr mod 12 = 0 then 12 else hr mod 12)"
  define x where "x = (if hr < 12 then CHR ''A'' else CHR ''P'')"
  have m: "0 \<le> m" "m < 1440" by (simp_all add: m_def minuteOfDay_def)
  then have hr: "0 \<le> hr" "hr < 24" by (simp_all add: hr_def)
  have mi: "0 \<le> mi" "mi < 60" by (simp_all add: mi_def)
  have h12: "0 \<le> h12" "h12 < 100"
    using hour12_bounds [OF hr] by (simp_all add: h12_def)
  obtain a b where ab: "twoDigits h12 = [a, b]" "isDigit a" "isDigit b"
      "10 * digitVal a + digitVal b = h12"
    using twoDigits_chars [OF h12] by auto
  obtain c d where cd: "twoDigits mi = [c, d]" "isDigit c" "isDigit d"
      "10 * digitVal c + digitVal d = mi"
    using twoDigits_chars [of mi] mi by auto
  have "toLocaleTimeString h (Some t) =
          twoDigits h12 @ '':'' @ twoDigits mi @ '' '' @ [x, CHR ''M'']"
    by (simp add: toLocaleTimeString_def Let_def h12_def hr_def mi_def m_def minuteOfDay_def
        x_def)
  then have s: "toLocaleTimeString h (Some t) =
                  [a, b, CHR '':'', c, d, CHR '' '', x, CHR ''M'']"
    by (simp add: ab(1) cd(1))
  have x: "x = CHR ''A'' \<or> x = CHR ''P''" by (simp add: x_def)
  have xp: "(x = CHR ''P'') = (\<not> hr < 12)" and xa: "(x = CHR ''A'') = (hr < 12)"
    by (simp_all add: x_def)
  have adj: "(if x = CHR ''P'' \<and> h12 \<noteq> 12 then h12 + 12
              else if x = CHR ''A'' \<and> h12 = 12 then 0 else h12) = hr"
    unfolding xp xa h12_def by (rule hour12_back [OF hr])
  have hm: "hr * 60 + mi = m" by (simp add: hr_def mi_def)
  show ?thesis
    unfolding s timeToMinutes_clock [OF ab(2,3) cd(2,3) x] Let_def ab(4) cd(4) adj hm
    by (simp add: m_def)
qed

lemma monday_slot_pieces:
  "split ''09:00 AM - 05:00 PM'' '' - '' = [''09:00 AM'', ''05:00 PM'']"
  "timeToMinutes (Some ''09:00 AM'') = Inr (Num 540)"
  "timeToMinutes (Some ''05:00 PM'') = Inr (Num 1020)"
  by code_simp+

lemma isTimeWithinSlot_monday_slot:
  "isTimeWithinSlot (toLocaleTimeString h (Some t)) ''09:00 AM - 05:00 PM'' =
     Inr (540 \<le> minuteOfDay h t \<and> minuteOfDay h t \<le> 1020)"
  by (simp add: isTimeWithinSlot_def monday_slot_pieces timeToMinutes_toLocaleTimeString
      js_ge_def js_le_def)

section \<open>Facts about the conflict scan\<close>

text \<open>
  The scan of \<open>findByDoctorId\<close> rewrites ids only: the working hours of every doctor
  object stay as they were.
\<close>

lemma foldl_assignDoctorId_workingHours:
  "doctor_workingHours (foldl (assignDoctorId i) heap as a) = doctor_workingHours (heap a)"
  by (induction as arbitrary: heap) (simp_all add: assignDoctorId_def)

text \<open>
  What the conflict check computes: with a non-empty doctor id, whether any stored
  appointment, of whichever doctor, has the requested time value.
\<close>

lemma hasAppointmentConflict_fst:
  "fst (hasAppointmentConflict w i t) =
     (truthy i \<and> list_ex (\<lambda>a. sameTime (appointment_date a) t)
                    (repo_findAll (appointmentRepository w)))"
  by (auto simp: hasAppointmentConflict_def findByDoctorId_def Let_def list_ex_iff)

lemma hasAppointmentConflict_snd:
  "snd (hasAppointmentConflict w i t) =
     w\<lparr>doctorHeap := foldl (assignDoctorId i) (doctorHeap w)
                        (repo_findAll (appointmentRepository w))\<rparr>"
  by (simp add: hasAppointmentConflict_def findByDoctorId_def Let_def)

lemma sameTime_None: "sameTime d None = False"
  by (simp add: sameTime_def split: option.splits)

section \<open>Facts about the availability check\<close>

lemma isDoctorAvailable_absent:
  "repo_findById doctorId (doctorRepository w) = None \<Longrightarrow>
   isDoctorAvailable h w doctorId date = (Inl (Error ''Doctor not found''), w)"
  by (simp add: isDoctorAvailable_def)

lemma isDoctorAvailable_Invalid_Date:
  assumes "repo_findById doctorId (doctorRepository w) = Some a"
  shows "raises (fst (isDoctorAvailable h w doctorId (DateObj None)))"
proof -
  obtain c w1 where c: "hasAppointmentConflict w doctorId None = (c, w1)" by fastforce
  have "c = False"
    using hasAppointmentConflict_fst [of w doctorId None] c
    by (simp add: sameTime_None list_ex_iff)
  moreover have "isWithinWorkingHours h (doctorHeap w1 a) None \<noteq> Inr True"
    by (simp add: isWithinWorkingHours_def toLocaleTimeString_def someWorkingHour_Invalid_Date)
  ultimately show ?thesis
    using assms c
    by (auto simp: isDoctorAvailable_def raises_def toISOString_def split: sum.splits)
qed

lemma isDoctorAvailable_valid:
  assumes "repo_findById doctorId (doctorRepository w) = Some a"
      and "list_all (\<lambda>wh. includes_js (timeSlot wh) '' - '')
             (doctor_workingHours (doctorHeap w a))"
  shows "\<not> raises (fst (isDoctorAvailable h w doctorId (DateObj (Some t))))"
proof -
  obtain c w1 where c: "hasAppointmentConflict w doctorId (Some t) = (c, w1)" by fastforce
  have "doctor_workingHours (doctorHeap w1 a) = doctor_workingHours (doctorHeap w a)"
    using hasAppointmentConflict_snd [of w doctorId "Some t"] c
    by (simp add: foldl_assignDoctorId_workingHours)
  then obtain b where "isWithinWorkingHours h (doctorHeap w1 a) (Some t) = Inr b"
    using someWorkingHour_separators [OF assms(2)] by (auto simp: isWithinWorkingHours_def)
  then show ?thesis
    using assms(1) c
    by (auto simp: isDoctorAvailable_def raises_def toISOString_def split: sum.splits)
qed

text \<open>
  With no appointment in the store, Dr Smith's Monday slot admits 10:00 AM, refuses
  08:00 AM and admits both of its boundaries, 09:00 AM and 05:00 PM.
\<close>

lemma isDoctorAvailable_smith_monday:
  "fst (isDoctorAvailable hostUTC clinic ''101'' (DateObj (Some (monday (hours 10))))) = Inr True"
  "fst (isDoctorAvailable hostUTC clinic ''101'' (DateObj (Some (monday (hours 8))))) = Inr False"
  "fst (isDoctorAvailable hostUTC clinic ''101'' (DateObj (Some (monday (hours 9))))) = Inr True"
  "fst (isDoctorAvailable hostUTC clinic ''101'' (DateObj (Some (monday (hours 17))))) = Inr True"
  by code_simp+

text \<open>
  In any state and any time zone: a doctor whose only entry is Monday
  \<open>09:00 AM - 05:00 PM\<close>, asked for a local Monday instant that no stored appointment
  has, is available exactly from minute 540 (09:00 AM) to minute 1020 (05:00 PM) of the
  day, both included.
\<close>

lemma isDoctorAvailable_monday_slot:
  assumes "repo_findById doctorId (doctorRepository w) = Some a"
      and "doctor_workingHours (doctorHeap w a) =
             [\<lparr>day = ''Monday'', timeSlot = ''09:00 AM - 05:00 PM''\<rparr>]"
      and "\<not> list_ex (\<lambda>a. sameTime (appointment_date a) (Some t))
               (repo_findAll (appointmentRepository w))"
      and "toLocaleDateString h (Some t) = ''Monday''"
  shows "fst (isDoctorAvailable h w doctorId (DateObj (Some t))) =
           Inr (540 \<le> minuteOfDay h t \<and> minuteOfDay h t \<le> 1020)"
proof -
  obtain c w1 where c: "hasAppointmentConflict w doctorId (Some t) = (c, w1)" by fastforce
  have "c = False"
    using hasAppointmentConflict_fst [of w doctorId "Some t"] c assms(3) by simp
  moreover have "doctor_workingHours (doctorHeap w1 a) = doctor_workingHours (doctorHeap w a)"
    using hasAppointmentConflict_snd [of w doctorId "Some t"] c
    by (simp add: foldl_assignDoctorId_workingHours)
  then have "isWithinWorkingHours h (doctorHeap w1 a) (Some t) =
               Inr (540 \<le> minuteOfDay h t \<and> minuteOfDay h t \<le> 1020)"
    by (simp add: isWithinWorkingHours_def assms(2,4) isTimeWithinSlot_monday_slot)
  ultimately show ?thesis
    using assms(1) c
    by (simp add: isDoctorAvailable_def toISOString_def)
qed

section \<open>Facts about the repository and the working hours\<close>

lemma repo_add_findById:
  assumes "repo_add k v r = Inr r'"
  shows "repo_findById k r' = Some v"
proof -
  from assms have fresh: "k \<notin> fst ` set r" and r': "r' = r @ [(k, v)]"
    by (auto simp: repo_add_def split: if_splits)
  from fresh have "map_of r k = None" by (simp add: map_of_eq_None_iff)
  then show ?thesis by (simp add: r' repo_findById_def map_add_def)
qed

lemma findById_notify:
  "findById (notifyAppointmentScheduled w a) i = findById w i"
  by (simp add: findById_def notifyAppointmentScheduled_def)

text \<open>
  What \<open>removeWorkingHours\<close> leaves in the doctor's list: the entries that differ from
  the request in both fields.
\<close>

lemma removeWorkingHours_hours:
  assumes "repo_findById doctorId (doctorRepository w) = Some a"
  shows "doctor_workingHours (doctorHeap (snd (removeWorkingHours w doctorId dy ts)) a) =
         filter (\<lambda>hour. day hour \<noteq> dy \<and> timeSlot hour \<noteq> ts)
           (doctor_workingHours (doctorHeap w a))"
  using assms by (simp add: removeWorkingHours_def Let_def split: sum.splits)

section \<open>The claims\<close>

text \<open>
  C1. The claim is that \<open>isDoctorAvailable(D.id, t)\<close> reports a conflict exactly when
  an appointment of doctor D has the time value \<open>t\<close>, and that appointments of other
  doctors never cause one. The code fails it: the only stored appointment belongs to
  Dr Jones (id 102), and the check for Dr Smith (id 101) at the same instant reports a
  conflict, prints the conflict line and returns false.
\<close>

theorem isDoctorAvailable_conflict_with_other_doctor:
  "repo_findAll (appointmentRepository clinicBooked) = [jonesAt10]
   \<and> repo_findById ''101'' (doctorRepository clinicBooked) = Some 1
   \<and> appointment_doctor jonesAt10 = 2
   \<and> doctor_id (doctorHeap clinicBooked 2) = ''102''
   \<and> fst (isDoctorAvailable hostUTC clinicBooked ''101'' (DateObj (Some (monday (hours 10)))))
       = Inr False
   \<and> console (snd (isDoctorAvailable hostUTC clinicBooked ''101''
                     (DateObj (Some (monday (hours 10))))))
       = [ConflictingAppointment (monday (hours 10))]"
  by code_simp

text \<open>
  C2. The claim is that \<open>isDoctorAvailable\<close> modifies no field of any stored
  appointment, \<open>appointment.doctor.id\<close> in particular. The code fails it: a check for
  Dr Smith at 11:00 AM, which succeeds and logs nothing, leaves the doctor of Dr Jones's
  appointment with the id 101 in place of 102.
\<close>

theorem isDoctorAvailable_rewrites_doctor_id:
  "repo_findAll (appointmentRepository clinicBooked) = [jonesAt10]
   \<and> appointment_doctor jonesAt10 = 2
   \<and> doctor_id (doctorHeap clinicBooked 2) = ''102''
   \<and> fst (isDoctorAvailable hostUTC clinicBooked ''101'' (DateObj (Some (monday (hours 11)))))
       = Inr True
   \<and> doctor_id (doctorHeap (snd (isDoctorAvailable hostUTC clinicBooked ''101''
                                   (DateObj (Some (monday (hours 11)))))) 2) = ''101''"
  by code_simp

text \<open>
  C3. The claim is that a doctor whose working hours are exactly Monday
  \<open>09:00 AM - 05:00 PM\<close>, and who has no appointment at the requested instant, is
  available on a Monday at 10:00 AM. The code fails it: Dr Smith has these hours and no
  appointment at all, the request is for Monday 10:00 AM, and the answer is false,
  because Dr Jones has an appointment at that instant.
\<close>

theorem isDoctorAvailable_monday_10_rejected:
  "repo_findById ''101'' (doctorRepository clinicBooked) = Some 1
   \<and> doctor_workingHours (doctorHeap clinicBooked 1) =
       [\<lparr>day = ''Monday'', timeSlot = ''09:00 AM - 05:00 PM''\<rparr>]
   \<and> list_all (\<lambda>a. appointment_doctor a \<noteq> 1) (repo_findAll (appointmentRepository clinicBooked))
   \<and> toLocaleDateString hostUTC (Some (monday (hours 10))) = ''Monday''
   \<and> toLocaleTimeString hostUTC (Some (monday (hours 10))) = ''10:00 AM''
   \<and> fst (isDoctorAvailable hostUTC clinicBooked ''101'' (DateObj (Some (monday (hours 10)))))
       = Inr False"
  by code_simp

text \<open>
  C4. For every request whose date is or parses to a valid \<open>Date\<close>, which carries a
  non-empty patient id and a non-empty doctor id, and whose patient id is not in the
  patient repository, \<open>execute\<close> raises \<open>Patient not found\<close> and leaves the state as it
  was: the appointment store has the same entries and nothing is written to the console.
\<close>

theorem execute_patient_not_found:
  assumes "requestDate h appointmentData = DateObj (Some t)"
      and "requestPatientId appointmentData = Some pid" and "truthy pid"
      and "requestDoctorId appointmentData = Some did" and "truthy did"
      and "repo_findById pid (patientRepository w) = None"
  shows "execute h w appointmentData = (Inl (Error ''Patient not found''), w)"
  using assms by (simp add: execute_def)

theorem execute_patient_not_found_witness:
  "requestDate hostUTC ghostRequest = DateObj (Some (monday (hours 10)))
   \<and> requestPatientId ghostRequest = Some ''ghost'' \<and> truthy ''ghost''
   \<and> requestDoctorId ghostRequest = Some ''101'' \<and> truthy ''101''
   \<and> repo_findById ''ghost'' (patientRepository clinic) = None
   \<and> execute hostUTC clinic ghostRequest = (Inl (Error ''Patient not found''), clinic)"
proof -
  have h1: "requestDate hostUTC ghostRequest = DateObj (Some (monday (hours 10)))" by code_simp
  have h2: "requestPatientId ghostRequest = Some ''ghost''" by code_simp
  have h3: "truthy ''ghost''" by (simp add: truthy_def)
  have h4: "requestDoctorId ghostRequest = Some ''101''" by code_simp
  have h5: "truthy ''101''" by (simp add: truthy_def)
  have h6: "repo_findById ''ghost'' (patientRepository clinic) = None" by code_simp
  show ?thesis
    using execute_patient_not_found [OF h1 h2 h3 h4 h5 h6] h1 h2 h3 h4 h5 h6 by simp
qed

text \<open>
  The claim as it stands fails on a request with a valid date and an unknown patient id
  that carries no doctor id: the guard on the two ids comes before the patient look-up
  and raises \<open>Patient ID and Doctor ID are required\<close>.
\<close>

theorem execute_unknown_patient_counterexample:
  "requestDate hostUTC (ghostRequest\<lparr>data_doctorId := None\<rparr>)
     = DateObj (Some (monday (hours 10)))
   \<and> data_patientId (ghostRequest\<lparr>data_doctorId := None\<rparr>) = Some ''ghost''
   \<and> repo_findById ''ghost'' (patientRepository clinic) = None
   \<and> fst (execute hostUTC clinic (ghostRequest\<lparr>data_doctorId := None\<rparr>)) =
       Inl (Error ''Patient ID and Doctor ID are required'')"
  by code_simp

text \<open>
  C5. When \<open>execute\<close> returns an appointment, \<open>findById\<close> with that appointment's id,
  called in the state \<open>execute\<close> leaves, returns the same appointment (id, date, patient
  reference, doctor reference, reason, status and observations); and its status is
  \<open>scheduled\<close> when the request specified none.
\<close>

theorem execute_findById_roundtrip:
  assumes "execute h w appointmentData = (Inr a, w')"
  shows "findById w' (appointment_id a) = Inr a
         \<and> (data_status appointmentData = None \<longrightarrow> appointment_status a = ''scheduled'')"
proof -
  from assms obtain t p d w1 r where
    a: "a = \<lparr>appointment_id = data_id appointmentData,
             appointment_date = Some t,
             appointment_patient = p,
             appointment_doctor = d,
             appointment_reason = data_reason appointmentData,
             appointment_status = orDefault (data_status appointmentData) ''scheduled'',
             appointment_observations = orDefault (data_observations appointmentData) []\<rparr>"
    and r: "repo_add (appointment_id a) a (appointmentRepository w1) = Inr r"
    and w': "w' = notifyAppointmentScheduled (w1\<lparr>appointmentRepository := r\<rparr>) a"
    by (auto simp: execute_def Let_def
        split: jsValue.splits option.splits prod.splits sum.splits if_splits)
  have "findById w' (appointment_id a) = Inr a"
    using repo_add_findById [OF r] by (simp add: w' findById_notify) (simp add: findById_def)
  moreover have "data_status appointmentData = None \<longrightarrow> appointment_status a = ''scheduled''"
    by (simp add: a orDefault_def)
  ultimately show ?thesis by simp
qed

theorem execute_findById_roundtrip_witness:
  "fst (execute hostUTC clinic checkup) =
     Inr \<lparr>appointment_id = Some ''201'', appointment_date = Some (monday (hours 10)),
          appointment_patient = 1, appointment_doctor = 1,
          appointment_reason = Some ''Regular Checkup'', appointment_status = ''scheduled'',
          appointment_observations = []\<rparr>
   \<and> data_status checkup = None
   \<and> findById (snd (execute hostUTC clinic checkup)) (Some ''201'') =
     Inr \<lparr>appointment_id = Some ''201'', appointment_date = Some (monday (hours 10)),
          appointment_patient = 1, appointment_doctor = 1,
          appointment_reason = Some ''Regular Checkup'', appointment_status = ''scheduled'',
          appointment_observations = []\<rparr>"
proof -
  have v: "fst (execute hostUTC clinic checkup) =
     Inr \<lparr>appointment_id = Some ''201'', appointment_date = Some (monday (hours 10)),
          appointment_patient = 1, appointment_doctor = 1,
          appointment_reason = Some ''Regular Checkup'', appointment_status = ''scheduled'',
          appointment_observations = []\<rparr>"
    by code_simp
  have s: "data_status checkup = None" by (simp add: checkup_def)
  have e: "execute hostUTC clinic checkup =
             (Inr \<lparr>appointment_id = Some ''201'', appointment_date = Some (monday (hours 10)),
                  appointment_patient = 1, appointment_doctor = 1,
                  appointment_reason = Some ''Regular Checkup'', appointment_status = ''scheduled'',
                  appointment_observations = []\<rparr>, snd (execute hostUTC clinic checkup))"
    using v by (simp add: prod_eq_iff)
  show ?thesis
    using execute_findById_roundtrip [OF e] v s by simp
qed

text \<open>
  C6. When the doctor is in the repository and the pair \<open>{day, timeSlot}\<close> is already in
  the doctor's working-hours list, \<open>addDoctorWorkingHours\<close> raises
  \<open>Working hours already exists for this doctor\<close> and leaves the state, and with it the
  list and its length, as it was.
\<close>

theorem addDoctorWorkingHours_duplicate:
  assumes "repo_findById doctorId (doctorRepository w) = Some a"
      and "\<lparr>day = dy, timeSlot = ts\<rparr> \<in> set (doctor_workingHours (doctorHeap w a))"
  shows "addDoctorWorkingHours w doctorId dy ts =
           (Inl (Error ''Working hours already exists for this doctor''), w)
         \<and> doctor_workingHours (doctorHeap (snd (addDoctorWorkingHours w doctorId dy ts)) a) =
             doctor_workingHours (doctorHeap w a)"
proof -
  have "list_ex (\<lambda>workingHour. day workingHour = dy \<and> timeSlot workingHour = ts)
          (doctor_workingHours (doctorHeap w a))"
    unfolding list_ex_iff using assms(2) by (intro bexI [of _ "\<lparr>day = dy, timeSlot = ts\<rparr>"]) simp_all
  with assms(1) show ?thesis
    by (simp add: addDoctorWorkingHours_def Let_def)
qed

theorem addDoctorWorkingHours_duplicate_witness:
  "repo_findById ''101'' (doctorRepository clinic) = Some 1
   \<and> \<lparr>day = ''Monday'', timeSlot = ''09:00 AM - 05:00 PM''\<rparr>
       \<in> set (doctor_workingHours (doctorHeap clinic 1))
   \<and> addDoctorWorkingHours clinic ''101'' ''Monday'' ''09:00 AM - 05:00 PM'' =
       (Inl (Error ''Working hours already exists for this doctor''), clinic)"
proof -
  have h1: "repo_findById ''101'' (doctorRepository clinic) = Some 1"
    by (simp add: clinic_def repo_findById_def)
  have h2: "\<lparr>day = ''Monday'', timeSlot = ''09:00 AM - 05:00 PM''\<rparr>
              \<in> set (doctor_workingHours (doctorHeap clinic 1))"
    by (simp add: clinic_def drSmith_def)
  show ?thesis
    using addDoctorWorkingHours_duplicate [OF h1 h2] h1 h2 by simp
qed

text \<open>
  C7. The claim is that removal takes out exactly the entries that equal the request in
  day and in time slot. The code fails it: asked to remove Monday
  \<open>09:00 AM - 05:00 PM\<close> from Dr Jones's three entries, it also removes the other
  Monday entry and the Tuesday entry with the same slot, and the list ends up empty.
\<close>

theorem removeWorkingHours_drops_partial_matches:
  "doctor_workingHours (doctorHeap clinic 2) =
     [\<lparr>day = ''Monday'', timeSlot = ''09:00 AM - 05:00 PM''\<rparr>,
      \<lparr>day = ''Monday'', timeSlot = ''06:00 PM - 08:00 PM''\<rparr>,
      \<lparr>day = ''Tuesday'', timeSlot = ''09:00 AM - 05:00 PM''\<rparr>]
   \<and> fst (removeWorkingHours clinic ''102'' ''Monday'' ''09:00 AM - 05:00 PM'') = Inr 2
   \<and> doctor_workingHours
       (doctorHeap (snd (removeWorkingHours clinic ''102'' ''Monday'' ''09:00 AM - 05:00 PM'')) 2)
     = []"
  by (simp add: removeWorkingHours_def clinic_def drJones_def drSmith_def repo_findById_def
      repo_update_def Let_def)

text \<open>
  C8. \<open>isDoctorAvailable\<close> raises whenever the doctor id is not in the doctor
  repository or the date is not a valid date value (an invalid \<open>Date\<close> object
  included); and when every time slot of the doctor contains the separator \<open>' - '\<close>,
  it raises in no other case.
\<close>

theorem isDoctorAvailable_raises:
  "(repo_findById doctorId (doctorRepository w) = None \<or> \<not> validDate date
      \<longrightarrow> raises (fst (isDoctorAvailable h w doctorId date)))
   \<and> (slotsHaveSeparator w doctorId \<and> raises (fst (isDoctorAvailable h w doctorId date))
      \<longrightarrow> repo_findById doctorId (doctorRepository w) = None \<or> \<not> validDate date)"
proof (cases "repo_findById doctorId (doctorRepository w)")
  case None
  then show ?thesis by (simp add: isDoctorAvailable_absent raises_def)
next
  case (Some a)
  show ?thesis
  proof (cases date)
    case (DateObj d)
    show ?thesis
    proof (cases d)
      case None
      with Some DateObj show ?thesis
        using isDoctorAvailable_Invalid_Date [OF Some, of h] by (simp add: validDate_def)
    next
      case (Some t)
      with \<open>repo_findById doctorId (doctorRepository w) = Some a\<close> DateObj show ?thesis
        using isDoctorAvailable_valid [of doctorId w a h t]
        by (auto simp: validDate_def slotsHaveSeparator_def)
    qed
  next
    case (StringVal s)
    with Some show ?thesis
      by (simp add: isDoctorAvailable_def raises_def validDate_def)
  next
    case OtherVal
    with Some show ?thesis
      by (simp add: isDoctorAvailable_def raises_def validDate_def)
  qed
qed

theorem isDoctorAvailable_raises_witness:
  "\<not> validDate (DateObj None) \<and> slotsHaveSeparator clinic ''101''
   \<and> raises (fst (isDoctorAvailable hostUTC clinic ''101'' (DateObj None)))
   \<and> fst (isDoctorAvailable hostUTC clinic ''101'' (DateObj None)) = Inl RangeError"
proof -
  have h1: "\<not> validDate (DateObj None)" by (simp add: validDate_def)
  have h2: "slotsHaveSeparator clinic ''101''" by code_simp
  have v: "fst (isDoctorAvailable hostUTC clinic ''101'' (DateObj None)) = Inl RangeError"
    by code_simp
  show ?thesis
    using isDoctorAvailable_raises
            [where doctorId = "''101''" and w = clinic and date = "DateObj None" and h = hostUTC]
          h1 h2 v
    by simp
qed

text \<open>
  The claim as it stands fails in its "only if" half: Dr Lee is in the repository, the
  date is valid, and the call raises a TypeError, because the slot of Dr Lee's Monday
  entry has no separator.
\<close>

theorem isDoctorAvailable_raises_counterexample:
  "repo_findById ''103'' (doctorRepository clinic) = Some 3
   \<and> validDate (DateObj (Some (monday (hours 10))))
   \<and> fst (isDoctorAvailable hostUTC clinic ''103'' (DateObj (Some (monday (hours 10)))))
       = Inl TypeError"
  by code_simp

text \<open>
  C9. \<open>isTimeWithinSlot\<close> returns a boolean exactly when the time slot contains the
  separator \<open>' - '\<close>, however malformed the slot is otherwise, and it returns true
  only when none of the three clock strings converts to NaN; a slot without the
  separator raises a TypeError.
\<close>

theorem isTimeWithinSlot_raises_without_separator:
  "(case isTimeWithinSlot time slot of
      Inl e \<Rightarrow> e = TypeError \<and> \<not> includes_js slot '' - ''
    | Inr b \<Rightarrow> includes_js slot '' - '' \<and>
        (b \<longrightarrow> timeToMinutes (Some time) \<noteq> Inr NaN
             \<and> timeToMinutes (element (split slot '' - '') 0) \<noteq> Inr NaN
             \<and> timeToMinutes (element (split slot '' - '') 1) \<noteq> Inr NaN))"
proof (cases "includes_js slot '' - ''")
  case True
  obtain s where s: "element (split slot '' - '') 0 = Some s"
    using element_split_first by blast
  from True obtain e where e: "element (split slot '' - '') (Suc 0) = Some e"
    using element_split_second [of "'' - ''" slot] by auto
  obtain n1 where n1: "timeToMinutes (Some time) = Inr n1" using timeToMinutes_Some by blast
  obtain n2 where n2: "timeToMinutes (Some s) = Inr n2" using timeToMinutes_Some by blast
  obtain n3 where n3: "timeToMinutes (Some e) = Inr n3" using timeToMinutes_Some by blast
  have v: "isTimeWithinSlot time slot = Inr (js_ge n1 n2 \<and> js_le n1 n3)"
    by (simp add: isTimeWithinSlot_def Let_def s e n1 n2 n3)
  show ?thesis
    using True js_ge_not_NaN [of n1 n2] js_le_not_NaN [of n1 n3]
    by (auto simp: v s e n1 n2 n3)
next
  case False
  then show ?thesis by (simp add: isTimeWithinSlot_no_separator)
qed

theorem isTimeWithinSlot_raises_without_separator_witness:
  "includes_js ''9 - 17'' '' - '' \<and> isTimeWithinSlot ''10:00 AM'' ''9 - 17'' = Inr True
   \<and> timeToMinutes (Some ''10:00 AM'') \<noteq> Inr NaN
   \<and> timeToMinutes (element (split ''9 - 17'' '' - '') 0) \<noteq> Inr NaN
   \<and> timeToMinutes (element (split ''9 - 17'' '' - '') 1) \<noteq> Inr NaN"
proof -
  have v: "isTimeWithinSlot ''10:00 AM'' ''9 - 17'' = Inr True" by code_simp
  show ?thesis
    using isTimeWithinSlot_raises_without_separator [where time = "''10:00 AM''" and slot = "''9 - 17''"] v
    by simp
qed

text \<open>
  The claim as it stands fails on two malformed slots: \<open>09:00 AM\<close>, which lacks the
  separator, raises; and \<open>9 - 17\<close>, which lacks the minutes and the AM/PM marks, is read
  as 09:00 to 17:00 and accepts 10:00 AM.
\<close>

theorem isTimeWithinSlot_malformed_counterexample:
  "isTimeWithinSlot ''10:00 AM'' ''09:00 AM'' = Inl TypeError
   \<and> isTimeWithinSlot ''10:00 AM'' ''9 - 17'' = Inr True"
  by code_simp

text \<open>
  C10. For every doctor id present in the doctor repository, \<open>listWorkingHours\<close> raises
  a TypeError, because it calls the array \<open>hours\<close>; it never returns the list.
\<close>

theorem listWorkingHours_raises:
  assumes "repo_findById doctorId (doctorRepository w) = Some a"
  shows "listWorkingHours w doctorId = Inl TypeError"
  using assms by (simp add: listWorkingHours_def callArray_def)

theorem listWorkingHours_raises_witness:
  "repo_findById ''101'' (doctorRepository clinic) = Some 1
   \<and> listWorkingHours clinic ''101'' = Inl TypeError"
proof -
  have h: "repo_findById ''101'' (doctorRepository clinic) = Some 1"
    by (simp add: clinic_def repo_findById_def)
  show ?thesis using listWorkingHours_raises [OF h] h by simp
qed

end
